theory Spec2Isabelle
  imports Complex_Main
begin

unbundle bit_operations_syntax

section \<open>Numbers, bit operations and library functions of the host language\<close>

text \<open>
  The program is JavaScript. Its numbers are idealised as mathematical reals: rounding,
  signed zeros, NaN and the infinities of IEEE doubles are outside this development.
  Values that index the permutation table are integers; reading an array outside its
  range gives \<open>undefined\<close>, and arithmetic on \<open>undefined\<close> gives \<open>NaN\<close>. Both are the
  value \<open>None\<close> of \<open>int option\<close> here: neither is a valid index, and the bitwise
  operators turn both into 0.
\<close>

type_synonym jsint = "int option"

text \<open>The conversion that the bitwise operators apply to their operands.\<close>

fun ToInt32 :: "jsint \<Rightarrow> int" where
  "ToInt32 None = 0"
| "ToInt32 (Some n) = signed_take_bit 31 n"

text \<open>The operator \<open>&\<close>.\<close>

definition js_and :: "jsint \<Rightarrow> jsint \<Rightarrow> int" where
  "js_and a b = ToInt32 a AND ToInt32 b"

text \<open>The operator \<open>+\<close> with a number on the right.\<close>

definition js_add :: "jsint \<Rightarrow> int \<Rightarrow> jsint" where
  "js_add a b = map_option (\<lambda>n. n + b) a"

text \<open>The operator \<open>%\<close> on integers: the result has the sign of the dividend.\<close>

definition js_rem :: "int \<Rightarrow> int \<Rightarrow> int" where
  "js_rem a b = sgn a * (\<bar>a\<bar> mod \<bar>b\<bar>)"

text \<open>Reading \<open>t[i]\<close>.\<close>

fun js_index :: "'a list \<Rightarrow> jsint \<Rightarrow> 'a option" where
  "js_index t None = None"
| "js_index t (Some i) = (if 0 \<le> i \<and> nat i < length t then Some (t ! nat i) else None)"

text \<open>
  \<open>Math.atan2(y, x)\<close> of the language standard, on reals (with a positive zero only).
\<close>

definition atan2 :: "real \<Rightarrow> real \<Rightarrow> real" where
  "atan2 y x =
     (if 0 < x then arctan (y / x)
      else if x < 0 then (if 0 \<le> y then arctan (y / x) + pi else arctan (y / x) - pi)
      else if 0 < y then pi / 2
      else if y < 0 then - (pi / 2)
      else 0)"

text \<open>An object literal \<open>{ x: ..., y: ... }\<close>.\<close>

record vec =
  vec_x :: real
  vec_y :: real

section \<open>FlowField\<close>

text \<open>
  The fields of the class \<open>FlowField\<close>, under the names of the source. \<open>grad3\<close> is a
  constant table and is a definition below.
\<close>

record FlowField =
  width :: real
  height :: real
  mode :: string
  scale :: real
  time :: real
  timeSpeed :: real
  mouseX :: real
  mouseY :: real
  mouseRadius :: real
  mouseForce :: real
  mousePressed :: bool
  perm :: "int list"
  gradP :: "int list option list"

definition grad3 :: "int list list" where
  "grad3 =
    [[1, 1, 0], [- 1, 1, 0], [1, - 1, 0], [- 1, - 1, 0],
     [1, 0, 1], [- 1, 0, 1], [1, 0, - 1], [- 1, 0, - 1],
     [0, 1, 1], [0, - 1, 1], [0, 1, - 1], [0, - 1, - 1]]"

text \<open>
  \<open>initPerlin\<close>. The argument \<open>rnd\<close> gives the results of the successive calls of
  \<open>Math.random()\<close>: \<open>rnd i\<close> is the draw that fills \<open>p[i]\<close>. The read \<open>p[i & 255]\<close> is
  within the 256 entries of \<open>p\<close> for every \<open>i\<close>.
\<close>

definition initPerlin_p :: "(nat \<Rightarrow> real) \<Rightarrow> int list" where
  "initPerlin_p rnd = map (\<lambda>i. \<lfloor>rnd i * 256\<rfloor>) [0..<256]"

definition initPerlin_perm :: "(nat \<Rightarrow> real) \<Rightarrow> int list" where
  "initPerlin_perm rnd =
     map (\<lambda>i. initPerlin_p rnd ! nat (js_and (Some (int i)) (Some 255))) [0..<512]"

definition initPerlin_gradP :: "(nat \<Rightarrow> real) \<Rightarrow> int list option list" where
  "initPerlin_gradP rnd =
     map (\<lambda>i. js_index grad3 (Some (js_rem (initPerlin_perm rnd ! i) 12))) [0..<512]"

definition initPerlin :: "FlowField \<Rightarrow> (nat \<Rightarrow> real) \<Rightarrow> FlowField" where
  "initPerlin f rnd = f\<lparr>perm := initPerlin_perm rnd, gradP := initPerlin_gradP rnd\<rparr>"

text \<open>
  The constructor. The parameter \<open>mode\<close> has the default value \<open>"flow"\<close>, taken when the
  argument is absent (\<open>None\<close>).
\<close>

definition FlowField_constructor ::
    "real \<Rightarrow> real \<Rightarrow> string option \<Rightarrow> (nat \<Rightarrow> real) \<Rightarrow> FlowField" where
  "FlowField_constructor w h m rnd =
     initPerlin
       \<lparr>width = w, height = h,
        mode = (case m of None \<Rightarrow> ''flow'' | Some s \<Rightarrow> s),
        scale = 100, time = 0, timeSpeed = 0.0003,
        mouseX = w / 2, mouseY = h / 2, mouseRadius = 150, mouseForce = 0.5,
        mousePressed = False, perm = [], gradP = []\<rparr>
       rnd"

definition fade :: "real \<Rightarrow> real" where
  "fade t = t * t * t * (t * (t * 6 - 15) + 10)"

definition lerp :: "real \<Rightarrow> real \<Rightarrow> real \<Rightarrow> real" where
  "lerp a b t = (1 - t) * a + t * b"

definition grad :: "jsint \<Rightarrow> real \<Rightarrow> real \<Rightarrow> real" where
  "grad hash x y =
     (let h = js_and hash (Some 3);
          u = (if h < 2 then x else y);
          v = (if h < 2 then y else x)
      in (if js_and (Some h) (Some 1) = 0 then u else - u)
       + (if js_and (Some h) (Some 2) = 0 then v else - v))"

definition noise2D :: "FlowField \<Rightarrow> real \<Rightarrow> real \<Rightarrow> real" where
  "noise2D f x y =
     (let X = js_and (Some \<lfloor>x\<rfloor>) (Some 255);
          Y = js_and (Some \<lfloor>y\<rfloor>) (Some 255);
          x = x - of_int \<lfloor>x\<rfloor>;
          y = y - of_int \<lfloor>y\<rfloor>;
          u = fade x;
          v = fade y;
          A = js_add (js_index (perm f) (Some X)) Y;
          AA = js_index (perm f) A;
          AB = js_index (perm f) (js_add A 1);
          B = js_add (js_index (perm f) (Some (X + 1))) Y;
          BA = js_index (perm f) B;
          BB = js_index (perm f) (js_add B 1)
      in lerp
           (lerp (grad (js_index (perm f) AA) x y)
                 (grad (js_index (perm f) BA) (x - 1) y) u)
           (lerp (grad (js_index (perm f) AB) x (y - 1))
                 (grad (js_index (perm f) BB) (x - 1) (y - 1)) u)
           v)"

text \<open>The angle that the \<open>switch\<close> of \<open>getVector\<close> computes from the mode.\<close>

definition modeAngle :: "FlowField \<Rightarrow> real \<Rightarrow> real \<Rightarrow> real" where
  "modeAngle f x y =
     (if mode f = ''flow'' then
        noise2D f (x / scale f) (y / scale f + time f) * pi * 2
      else if mode f = ''galaxy'' then
        (let centerX = width f / 2;
             centerY = height f / 2;
             dx = x - centerX;
             dy = y - centerY;
             dist = sqrt (dx * dx + dy * dy);
             baseAngle = atan2 dy dx
         in baseAngle + dist * 0.01 + noise2D f (x / scale f) (y / scale f) * 0.5)
      else if mode f = ''vortex'' then
        (let vortexX = width f / 2;
             vortexY = height f / 2;
             vdx = x - vortexX;
             vdy = y - vortexY;
             vdist = sqrt (vdx * vdx + vdy * vdy);
             angle = atan2 vdy vdx + pi / 2 + vdist * 0.005
         in angle
            + noise2D f (x / (scale f * 0.5)) (y / (scale f * 0.5) + time f) * 1.5)
      else if mode f = ''chaos'' then
        (let angle =
               noise2D f (x / (scale f * 0.3)) (y / (scale f * 0.3) + time f * 2) * pi * 4
         in angle
            + noise2D f (x / (scale f * 0.5)) (y / (scale f * 0.5) - time f) * pi * 2)
      else 0)"

text \<open>The pointer's influence on the angle: the second half of \<open>getVector\<close>.\<close>

definition applyMouse :: "FlowField \<Rightarrow> real \<Rightarrow> real \<Rightarrow> real \<Rightarrow> real" where
  "applyMouse f x y angle =
     (if mousePressed f then
        (let dx = x - mouseX f;
             dy = y - mouseY f;
             distToMouse = sqrt (dx * dx + dy * dy)
         in if distToMouse < mouseRadius f then
              (let influence = 1 - distToMouse / mouseRadius f;
                   mouseAngle = atan2 dy dx + pi;
                   mixFactor = influence * mouseForce f
               in angle * (1 - mixFactor) + mouseAngle * mixFactor)
            else angle)
      else angle)"

definition getVector :: "FlowField \<Rightarrow> real \<Rightarrow> real \<Rightarrow> vec" where
  "getVector f x y =
     (let angle = applyMouse f x y (modeAngle f x y)
      in \<lparr>vec_x = cos angle, vec_y = sin angle\<rparr>)"

definition FlowField_update :: "FlowField \<Rightarrow> FlowField" where
  "FlowField_update f = f\<lparr>time := time f + timeSpeed f\<rparr>"

definition setMousePosition :: "FlowField \<Rightarrow> real \<Rightarrow> real \<Rightarrow> FlowField" where
  "setMousePosition f x y = f\<lparr>mouseX := x, mouseY := y\<rparr>"

definition setMousePressed :: "FlowField \<Rightarrow> bool \<Rightarrow> FlowField" where
  "setMousePressed f pressed = f\<lparr>mousePressed := pressed\<rparr>"

definition setMode :: "FlowField \<Rightarrow> string \<Rightarrow> FlowField" where
  "setMode f m =
     (let f = f\<lparr>mode := m\<rparr>
      in if m = ''galaxy'' then f\<lparr>timeSpeed := 0.0001\<rparr>
         else if m = ''vortex'' then f\<lparr>timeSpeed := 0.0005\<rparr>
         else if m = ''chaos'' then f\<lparr>timeSpeed := 0.001\<rparr>
         else f\<lparr>timeSpeed := 0.0003\<rparr>)"

definition resize :: "FlowField \<Rightarrow> real \<Rightarrow> real \<Rightarrow> FlowField" where
  "resize f w h = f\<lparr>width := w, height := h, mouseX := w / 2, mouseY := h / 2\<rparr>"

text \<open>
  The fields that the program can build: a constructed field (every draw of
  \<open>Math.random()\<close> is in \<open>[0, 1)\<close>), changed by its methods only.
\<close>

inductive reachable :: "FlowField \<Rightarrow> bool" where
  constructed: "(\<And>i. 0 \<le> rnd i \<and> rnd i < 1) \<Longrightarrow> reachable (FlowField_constructor w h m rnd)"
| updated: "reachable f \<Longrightarrow> reachable (FlowField_update f)"
| mouse_moved: "reachable f \<Longrightarrow> reachable (setMousePosition f x y)"
| mouse_pressed: "reachable f \<Longrightarrow> reachable (setMousePressed f pressed)"
| mode_set: "reachable f \<Longrightarrow> reachable (setMode f m)"
| resized: "reachable f \<Longrightarrow> reachable (resize f w h)"

section \<open>Particle\<close>

text \<open>
  The fields of the class \<open>Particle\<close>. The fields \<open>x\<close>, \<open>y\<close>, \<open>width\<close> and \<open>height\<close> of
  the source are \<open>p_x\<close>, \<open>p_y\<close>, \<open>p_width\<close> and \<open>p_height\<close> here; the others keep their
  names.
\<close>

record Particle =
  p_x :: real
  p_y :: real
  p_width :: real
  p_height :: real
  vx :: real
  vy :: real
  maxSpeed :: real
  hue :: real
  history :: "vec list"
  maxHistory :: nat

text \<open>
  The constructor. The arguments \<open>x\<close> and \<open>y\<close> may be absent (\<open>None\<close>); \<open>r1\<close>, \<open>r2\<close> and
  \<open>r3\<close> are the results of its three calls of \<open>Math.random()\<close>, in order.
\<close>

definition Particle_constructor ::
    "real option \<Rightarrow> real option \<Rightarrow> real \<Rightarrow> real \<Rightarrow> real \<Rightarrow> real \<Rightarrow> real \<Rightarrow> Particle" where
  "Particle_constructor x y w h r1 r2 r3 =
     (let padding = 50
      in \<lparr>p_x = padding + r1 * (w - padding * 2),
          p_y = padding + r2 * (h - padding * 2),
          p_width = w, p_height = h,
          vx = 0, vy = 0,
          maxSpeed = 2,
          hue = r3 * 360,
          history = [], maxHistory = 20\<rparr>)"

text \<open>
  \<open>update(force, speed)\<close>, block by block in the order of the source. The division in
  \<open>limitSpeed\<close> is by a positive number whenever \<open>maxSpeed\<close> is not negative.
\<close>

definition applyForce :: "Particle \<Rightarrow> vec \<Rightarrow> Particle" where
  "applyForce p force = p\<lparr>vx := vx p + vec_x force * 0.3, vy := vy p + vec_y force * 0.3\<rparr>"

definition currentSpeed :: "Particle \<Rightarrow> real" where
  "currentSpeed p = sqrt (vx p * vx p + vy p * vy p)"

definition limitSpeed :: "Particle \<Rightarrow> Particle" where
  "limitSpeed p =
     (if currentSpeed p > maxSpeed p
      then p\<lparr>vx := vx p / currentSpeed p * maxSpeed p,
             vy := vy p / currentSpeed p * maxSpeed p\<rparr>
      else p)"

definition pushHistory :: "Particle \<Rightarrow> Particle" where
  "pushHistory p =
     (let h = history p @ [\<lparr>vec_x = p_x p, vec_y = p_y p\<rparr>]
      in p\<lparr>history := (if length h > maxHistory p then tl h else h)\<rparr>)"

definition move :: "Particle \<Rightarrow> real \<Rightarrow> Particle" where
  "move p speed = p\<lparr>p_x := p_x p + vx p * speed, p_y := p_y p + vy p * speed\<rparr>"

definition damping :: real where
  "damping = 0.7"

definition margin :: real where
  "margin = 2"

text \<open>The two boundary checks; each gives the particle and whether it bounced.\<close>

definition bounceX :: "Particle \<Rightarrow> Particle \<times> bool" where
  "bounceX p =
     (if p_x p < margin then (p\<lparr>p_x := margin, vx := \<bar>vx p\<bar> * damping\<rparr>, True)
      else if p_x p > p_width p - margin
      then (p\<lparr>p_x := p_width p - margin, vx := - \<bar>vx p\<bar> * damping\<rparr>, True)
      else (p, False))"

definition bounceY :: "Particle \<Rightarrow> Particle \<times> bool" where
  "bounceY p =
     (if p_y p < margin then (p\<lparr>p_y := margin, vy := \<bar>vy p\<bar> * damping\<rparr>, True)
      else if p_y p > p_height p - margin
      then (p\<lparr>p_y := p_height p - margin, vy := - \<bar>vy p\<bar> * damping\<rparr>, True)
      else (p, False))"

text \<open>The particle as it is when the boundary checks begin.\<close>

definition beforeBounce :: "Particle \<Rightarrow> vec \<Rightarrow> real \<Rightarrow> Particle" where
  "beforeBounce p force speed = move (pushHistory (limitSpeed (applyForce p force))) speed"

text \<open>The local variable \<open>bounced\<close> at the end of \<open>update\<close>.\<close>

definition bounced :: "Particle \<Rightarrow> vec \<Rightarrow> real \<Rightarrow> bool" where
  "bounced p force speed =
     (let (p1, bx) = bounceX (beforeBounce p force speed);
          (p2, by) = bounceY p1
      in bx \<or> by)"

definition Particle_update :: "Particle \<Rightarrow> vec \<Rightarrow> real \<Rightarrow> Particle" where
  "Particle_update p force speed =
     (let speed0 = currentSpeed (applyForce p force);
          (p1, bx) = bounceX (beforeBounce p force speed);
          (p2, by) = bounceY p1;
          p3 = (if bx \<or> by then p2\<lparr>history := []\<rparr> else p2);
          speedRatio = speed0 / maxSpeed p3
      in p3\<lparr>hue := speedRatio * 120\<rparr>)"

definition reset :: "Particle \<Rightarrow> real \<Rightarrow> real \<Rightarrow> real \<Rightarrow> real \<Rightarrow> Particle" where
  "reset p w h r1 r2 =
     (let padding = 50
      in p\<lparr>p_x := padding + r1 * (w - padding * 2),
           p_y := padding + r2 * (h - padding * 2),
           vx := 0, vy := 0, history := [],
           p_width := w, p_height := h\<rparr>)"

text \<open>
  The driver calls \<open>update\<close> once per frame: a run is the list of the forces and speed
  multipliers of its frames, first frame first.
\<close>

fun updates :: "Particle \<Rightarrow> (vec \<times> real) list \<Rightarrow> Particle" where
  "updates p [] = p"
| "updates p ((force, speed) # rest) = updates (Particle_update p force speed) rest"

section \<open>Sample inputs\<close>

text \<open>A run of \<open>Math.random()\<close> that returns 0 at every call.\<close>

definition zero_draws :: "nat \<Rightarrow> real" where
  "zero_draws i = 0"

text \<open>
  A new particle on a canvas of 800 by 600, for the draws 0 and 1/2: it is at
  \<open>(50, 300)\<close>. The constructor is called without a position.
\<close>

definition sample_particle :: Particle where
  "sample_particle = Particle_constructor None None 800 600 0 (1 / 2) 0"

text \<open>Two unit forces, as \<open>getVector\<close> returns them for the angles 0 and \<open>\<pi>\<close>.\<close>

definition east :: vec where
  "east = \<lparr>vec_x = 1, vec_y = 0\<rparr>"

definition west :: vec where
  "west = \<lparr>vec_x = - 1, vec_y = 0\<rparr>"

section \<open>The noise function\<close>

lemma grad_abs_le: "\<bar>grad hash a b\<bar> \<le> \<bar>a\<bar> + \<bar>b\<bar>"
  by (auto simp: grad_def Let_def)

lemma grad_zero: "grad hash 0 0 = 0"
  by (simp add: grad_def Let_def)

lemma fade_nonneg: "0 \<le> t \<Longrightarrow> 0 \<le> fade t"
proof -
  assume t: "0 \<le> t"
  have "t * (t * 6 - 15) + 10 = 6 * (t - 5/4)^2 + 5/8"
    by (simp add: power2_eq_square algebra_simps)
  then have "0 \<le> t * (t * 6 - 15) + 10" by simp
  with t show ?thesis by (simp add: fade_def)
qed

lemma fade_flip: "fade (1 - t) = 1 - fade t"
  by (simp add: fade_def algebra_simps)

lemma fade_le_one: "t \<le> 1 \<Longrightarrow> fade t \<le> 1"
  using fade_nonneg [of "1 - t"] by (simp add: fade_flip)

text \<open>
  The largest value that the interpolation can take along one axis, at offset \<open>t\<close>, is
  \<open>t + fade t * (1 - 2 * t)\<close>; it is \<open>1 / 2\<close> in the middle of the cell and smaller
  elsewhere, because \<open>fade t - 1 / 2\<close> has the sign of \<open>t - 1 / 2\<close>.
\<close>

lemma hump_le_half: "t + fade t * (1 - 2 * t) \<le> 1 / 2"
proof -
  have "1 / 2 - (t + fade t * (1 - 2 * t))
        = 2 * (t - 1 / 2)^2 * (6 * (t * (1 - t))^2 + 2 * (t * (1 - t)) + 1)"
    by (simp add: fade_def power2_eq_square algebra_simps)
  moreover have "0 \<le> 2 * (t - 1 / 2)^2 * (6 * (t * (1 - t))^2 + 2 * (t * (1 - t)) + 1)"
  proof -
    have "6 * (t * (1 - t))^2 + 2 * (t * (1 - t)) + 1 = 6 * (t * (1 - t) + 1 / 6)^2 + 5 / 6"
      by (simp add: power2_eq_square algebra_simps)
    then have "0 \<le> 6 * (t * (1 - t))^2 + 2 * (t * (1 - t)) + 1" by simp
    then show ?thesis by (intro mult_nonneg_nonneg) auto
  qed
  ultimately show ?thesis by linarith
qed

lemma lerp_abs_le:
  assumes "0 \<le> t" "t \<le> 1" "\<bar>a\<bar> \<le> ba" "\<bar>b\<bar> \<le> bb"
  shows "\<bar>lerp a b t\<bar> \<le> lerp ba bb t"
proof -
  have "\<bar>lerp a b t\<bar> \<le> \<bar>(1 - t) * a\<bar> + \<bar>t * b\<bar>"
    unfolding lerp_def by (rule abs_triangle_ineq)
  also have "\<dots> = (1 - t) * \<bar>a\<bar> + t * \<bar>b\<bar>"
    using assms by (simp add: abs_mult)
  also have "\<dots> \<le> (1 - t) * ba + t * bb"
    using assms by (intro add_mono mult_left_mono) auto
  finally show ?thesis by (simp add: lerp_def)
qed

lemma noise_shape_bound:
  assumes a: "0 \<le> a" "a \<le> 1" and b: "0 \<le> b" "b \<le> 1"
    and g: "\<bar>g00\<bar> \<le> a + b" "\<bar>g10\<bar> \<le> (1 - a) + b"
           "\<bar>g01\<bar> \<le> a + (1 - b)" "\<bar>g11\<bar> \<le> (1 - a) + (1 - b)"
  shows "\<bar>lerp (lerp g00 g10 (fade a)) (lerp g01 g11 (fade a)) (fade b)\<bar> \<le> 1"
proof -
  have u: "0 \<le> fade a" "fade a \<le> 1" and v: "0 \<le> fade b" "fade b \<le> 1"
    using a b by (simp_all add: fade_nonneg fade_le_one)
  have "\<bar>lerp (lerp g00 g10 (fade a)) (lerp g01 g11 (fade a)) (fade b)\<bar>
        \<le> lerp (lerp (a + b) ((1 - a) + b) (fade a))
               (lerp (a + (1 - b)) ((1 - a) + (1 - b)) (fade a)) (fade b)"
    by (intro lerp_abs_le u v g)
  also have "\<dots> = (a + fade a * (1 - 2 * a)) + (b + fade b * (1 - 2 * b))"
    by (simp add: lerp_def algebra_simps)
  also have "\<dots> \<le> 1"
    using hump_le_half [of a] hump_le_half [of b] by linarith
  finally show ?thesis .
qed

lemma noise2D_abs_le: "\<bar>noise2D f x y\<bar> \<le> 1"
proof -
  define a where "a = x - of_int \<lfloor>x\<rfloor>"
  define b where "b = y - of_int \<lfloor>y\<rfloor>"
  have a: "0 \<le> a" "a \<le> 1" and b: "0 \<le> b" "b \<le> 1"
    unfolding a_def b_def by linarith+
  have g: "\<bar>grad h1 a b\<bar> \<le> a + b" "\<bar>grad h2 (a - 1) b\<bar> \<le> (1 - a) + b"
      "\<bar>grad h3 a (b - 1)\<bar> \<le> a + (1 - b)" "\<bar>grad h4 (a - 1) (b - 1)\<bar> \<le> (1 - a) + (1 - b)"
    for h1 h2 h3 h4
    using grad_abs_le [of h1 a b] grad_abs_le [of h2 "a - 1" b]
      grad_abs_le [of h3 a "b - 1"] grad_abs_le [of h4 "a - 1" "b - 1"] a b
    by simp_all
  show ?thesis
    unfolding noise2D_def Let_def a_def [symmetric] b_def [symmetric]
    by (rule noise_shape_bound [OF a b g])
qed

lemma lerp_zero: "lerp a b 0 = a"
  by (simp add: lerp_def)

lemma fade_zero: "fade 0 = 0"
  by (simp add: fade_def)

lemma noise2D_int: "noise2D f (of_int i) (of_int j) = 0"
  by (simp add: noise2D_def Let_def fade_zero lerp_zero grad_zero)

section \<open>The field and its vectors\<close>

lemma reachable_scale: "reachable f \<Longrightarrow> scale f = 100"
  by (induction rule: reachable.induct)
     (simp_all add: FlowField_constructor_def initPerlin_def FlowField_update_def
        setMousePosition_def setMousePressed_def setMode_def resize_def Let_def)

lemma flow_angle_inactive:
  assumes "scale f = 100" "mode f = ''flow''" "\<not> mousePressed f"
  shows "getVector f x y =
           \<lparr>vec_x = cos (noise2D f (x / 100) (y / 100 + time f) * (2 * pi)),
            vec_y = sin (noise2D f (x / 100) (y / 100 + time f) * (2 * pi))\<rparr>"
  using assms by (simp add: getVector_def applyMouse_def modeAngle_def Let_def mult_ac)

lemma reachable_zero_draws: "reachable (FlowField_constructor w h m zero_draws)"
  by (rule reachable.constructed) (simp add: zero_draws_def)

lemma constructor_fields:
  "scale (FlowField_constructor w h m rnd) = 100"
  "time (FlowField_constructor w h m rnd) = 0"
  "timeSpeed (FlowField_constructor w h m rnd) = 3 / 10000"
  "mode (FlowField_constructor w h m rnd) = (case m of None \<Rightarrow> ''flow'' | Some s \<Rightarrow> s)"
  "mouseX (FlowField_constructor w h m rnd) = w / 2"
  "mouseY (FlowField_constructor w h m rnd) = h / 2"
  "mouseRadius (FlowField_constructor w h m rnd) = 150"
  "mouseForce (FlowField_constructor w h m rnd) = 1 / 2"
  "mousePressed (FlowField_constructor w h m rnd) = False"
  "width (FlowField_constructor w h m rnd) = w"
  "height (FlowField_constructor w h m rnd) = h"
  by (simp_all add: FlowField_constructor_def initPerlin_def)

section \<open>The particle, field by field\<close>

lemma currentSpeed_nonneg: "0 \<le> currentSpeed p"
  by (simp add: currentSpeed_def)

lemma currentSpeed_square: "currentSpeed p * currentSpeed p = vx p * vx p + vy p * vy p"
  by (simp add: currentSpeed_def)

lemma currentSpeed_gt_iff:
  "0 \<le> m \<Longrightarrow> m < currentSpeed p \<longleftrightarrow> m * m < vx p * vx p + vy p * vy p"
proof -
  assume m: "0 \<le> m"
  have "m < currentSpeed p \<longleftrightarrow> sqrt (m * m) < sqrt (vx p * vx p + vy p * vy p)"
    using m by (simp add: currentSpeed_def)
  then show ?thesis by (simp only: real_sqrt_less_iff)
qed

lemma currentSpeed_mono:
  "\<bar>vx q\<bar> \<le> \<bar>vx p\<bar> \<Longrightarrow> \<bar>vy q\<bar> \<le> \<bar>vy p\<bar> \<Longrightarrow> currentSpeed q \<le> currentSpeed p"
proof -
  assume a: "\<bar>vx q\<bar> \<le> \<bar>vx p\<bar>" and b: "\<bar>vy q\<bar> \<le> \<bar>vy p\<bar>"
  have "vx q * vx q \<le> vx p * vx p"
    using a mult_mono [of "\<bar>vx q\<bar>" "\<bar>vx p\<bar>" "\<bar>vx q\<bar>" "\<bar>vx p\<bar>"] by simp
  moreover have "vy q * vy q \<le> vy p * vy p"
    using b mult_mono [of "\<bar>vy q\<bar>" "\<bar>vy p\<bar>" "\<bar>vy q\<bar>" "\<bar>vy p\<bar>"] by simp
  ultimately show ?thesis
    by (simp add: currentSpeed_def add_mono)
qed

lemma limitSpeed_le: "0 \<le> maxSpeed p \<Longrightarrow> currentSpeed (limitSpeed p) \<le> maxSpeed p"
proof (cases "currentSpeed p > maxSpeed p")
  case False
  then show ?thesis by (simp add: limitSpeed_def)
next
  case True
  assume m: "0 \<le> maxSpeed p"
  define c where "c = currentSpeed p"
  have c: "0 < c" using True m by (simp add: c_def)
  have sq: "vx p * vx p + vy p * vy p = c * c"
    by (simp add: c_def currentSpeed_square)
  have "(vx p / c * maxSpeed p) * (vx p / c * maxSpeed p)
        + (vy p / c * maxSpeed p) * (vy p / c * maxSpeed p)
        = (vx p * vx p + vy p * vy p) / (c * c) * (maxSpeed p * maxSpeed p)"
    by (simp add: field_simps add_divide_distrib)
  also have "\<dots> = maxSpeed p * maxSpeed p"
    using c by (simp add: sq)
  finally have "currentSpeed (limitSpeed p) = sqrt (maxSpeed p * maxSpeed p)"
    using True by (simp add: limitSpeed_def currentSpeed_def c_def)
  then show ?thesis using m by simp
qed

lemma limitSpeed_fields [simp]:
  "p_x (limitSpeed p) = p_x p" "p_y (limitSpeed p) = p_y p"
  "p_width (limitSpeed p) = p_width p" "p_height (limitSpeed p) = p_height p"
  "maxSpeed (limitSpeed p) = maxSpeed p" "history (limitSpeed p) = history p"
  "maxHistory (limitSpeed p) = maxHistory p"
  by (simp_all add: limitSpeed_def)

lemma applyForce_fields [simp]:
  "p_x (applyForce p force) = p_x p" "p_y (applyForce p force) = p_y p"
  "p_width (applyForce p force) = p_width p" "p_height (applyForce p force) = p_height p"
  "maxSpeed (applyForce p force) = maxSpeed p" "history (applyForce p force) = history p"
  "maxHistory (applyForce p force) = maxHistory p"
  "vx (applyForce p force) = vx p + vec_x force * 0.3"
  "vy (applyForce p force) = vy p + vec_y force * 0.3"
  by (simp_all add: applyForce_def)

lemma pushHistory_fields [simp]:
  "p_x (pushHistory p) = p_x p" "p_y (pushHistory p) = p_y p"
  "p_width (pushHistory p) = p_width p" "p_height (pushHistory p) = p_height p"
  "maxSpeed (pushHistory p) = maxSpeed p" "maxHistory (pushHistory p) = maxHistory p"
  "vx (pushHistory p) = vx p" "vy (pushHistory p) = vy p"
  by (simp_all add: pushHistory_def Let_def)

lemma move_fields [simp]:
  "p_x (move p speed) = p_x p + vx p * speed" "p_y (move p speed) = p_y p + vy p * speed"
  "p_width (move p speed) = p_width p" "p_height (move p speed) = p_height p"
  "maxSpeed (move p speed) = maxSpeed p" "maxHistory (move p speed) = maxHistory p"
  "vx (move p speed) = vx p" "vy (move p speed) = vy p" "history (move p speed) = history p"
  by (simp_all add: move_def)

lemma beforeBounce_fields:
  "p_x (beforeBounce p force speed) = p_x p + vx (limitSpeed (applyForce p force)) * speed"
  "p_y (beforeBounce p force speed) = p_y p + vy (limitSpeed (applyForce p force)) * speed"
  "p_width (beforeBounce p force speed) = p_width p"
  "p_height (beforeBounce p force speed) = p_height p"
  "maxSpeed (beforeBounce p force speed) = maxSpeed p"
  "maxHistory (beforeBounce p force speed) = maxHistory p"
  "vx (beforeBounce p force speed) = vx (limitSpeed (applyForce p force))"
  "vy (beforeBounce p force speed) = vy (limitSpeed (applyForce p force))"
  "history (beforeBounce p force speed) = history (pushHistory p)"
  by (simp_all add: beforeBounce_def) (simp add: pushHistory_def Let_def)

lemma beforeBounce_speed:
  "0 \<le> maxSpeed p \<Longrightarrow> currentSpeed (beforeBounce p force speed) \<le> maxSpeed p"
  using limitSpeed_le [of "applyForce p force"]
  by (simp add: currentSpeed_def beforeBounce_fields)

text \<open>The effect of the two boundary checks, field by field.\<close>

lemma bounceX_fields:
  "p_x (fst (bounceX p)) =
     (if p_x p < 2 then 2 else if p_x p > p_width p - 2 then p_width p - 2 else p_x p)"
  "vx (fst (bounceX p)) =
     (if p_x p < 2 then \<bar>vx p\<bar> * (7 / 10)
      else if p_x p > p_width p - 2 then - \<bar>vx p\<bar> * (7 / 10) else vx p)"
  "snd (bounceX p) \<longleftrightarrow> p_x p < 2 \<or> p_x p > p_width p - 2"
  "p_y (fst (bounceX p)) = p_y p" "vy (fst (bounceX p)) = vy p"
  "p_width (fst (bounceX p)) = p_width p" "p_height (fst (bounceX p)) = p_height p"
  "maxSpeed (fst (bounceX p)) = maxSpeed p" "maxHistory (fst (bounceX p)) = maxHistory p"
  "history (fst (bounceX p)) = history p"
  by (auto simp: bounceX_def margin_def damping_def)

lemma bounceY_fields:
  "p_y (fst (bounceY p)) =
     (if p_y p < 2 then 2 else if p_y p > p_height p - 2 then p_height p - 2 else p_y p)"
  "vy (fst (bounceY p)) =
     (if p_y p < 2 then \<bar>vy p\<bar> * (7 / 10)
      else if p_y p > p_height p - 2 then - \<bar>vy p\<bar> * (7 / 10) else vy p)"
  "snd (bounceY p) \<longleftrightarrow> p_y p < 2 \<or> p_y p > p_height p - 2"
  "p_x (fst (bounceY p)) = p_x p" "vx (fst (bounceY p)) = vx p"
  "p_width (fst (bounceY p)) = p_width p" "p_height (fst (bounceY p)) = p_height p"
  "maxSpeed (fst (bounceY p)) = maxSpeed p" "maxHistory (fst (bounceY p)) = maxHistory p"
  "history (fst (bounceY p)) = history p"
  by (auto simp: bounceY_def margin_def damping_def)

lemma bounced_iff:
  "bounced p force speed \<longleftrightarrow>
     p_x (beforeBounce p force speed) < 2
     \<or> p_x (beforeBounce p force speed) > p_width p - 2
     \<or> p_y (beforeBounce p force speed) < 2
     \<or> p_y (beforeBounce p force speed) > p_height p - 2"
  using bounceX_fields(3) [of "beforeBounce p force speed"]
    bounceY_fields(3) [of "fst (bounceX (beforeBounce p force speed))"]
  by (simp add: bounced_def split_beta Let_def bounceX_fields beforeBounce_fields)

lemma update_fields:
  "p_x (Particle_update p force speed) = p_x (fst (bounceX (beforeBounce p force speed)))"
  "vx (Particle_update p force speed) = vx (fst (bounceX (beforeBounce p force speed)))"
  "p_y (Particle_update p force speed) = p_y (fst (bounceY (beforeBounce p force speed)))"
  "vy (Particle_update p force speed) = vy (fst (bounceY (beforeBounce p force speed)))"
  "p_width (Particle_update p force speed) = p_width p"
  "p_height (Particle_update p force speed) = p_height p"
  "maxSpeed (Particle_update p force speed) = maxSpeed p"
  "maxHistory (Particle_update p force speed) = maxHistory p"
  "hue (Particle_update p force speed) = currentSpeed (applyForce p force) / maxSpeed p * 120"
  "history (Particle_update p force speed) =
     (if bounced p force speed then [] else history (pushHistory p))"
  by (simp_all add: Particle_update_def bounced_def split_beta Let_def bounceX_fields
      bounceY_fields beforeBounce_fields)

lemma update_speed_le:
  assumes "0 \<le> maxSpeed p"
  shows "currentSpeed (Particle_update p force speed) \<le> maxSpeed p"
proof -
  have "currentSpeed (Particle_update p force speed) \<le> currentSpeed (beforeBounce p force speed)"
    by (rule currentSpeed_mono) (simp_all add: update_fields bounceX_fields bounceY_fields)
  also have "\<dots> \<le> maxSpeed p"
    using assms by (rule beforeBounce_speed)
  finally show ?thesis .
qed

lemma update_inside:
  assumes "4 \<le> p_width p" "4 \<le> p_height p"
  shows "2 \<le> p_x (Particle_update p force speed)"
    "p_x (Particle_update p force speed) \<le> p_width p - 2"
    "2 \<le> p_y (Particle_update p force speed)"
    "p_y (Particle_update p force speed) \<le> p_height p - 2"
  using assms by (simp_all add: update_fields bounceX_fields bounceY_fields beforeBounce_fields)

lemma pushHistory_history:
  "length (history p) \<le> maxHistory p \<Longrightarrow>
   history (pushHistory p) =
     drop (length (history p) + 1 - maxHistory p) (history p @ [\<lparr>vec_x = p_x p, vec_y = p_y p\<rparr>])"
proof (cases "length (history p) = maxHistory p")
  case True
  then have one: "length (history p) + 1 - maxHistory p = 1" by simp
  have "history (pushHistory p) = tl (history p @ [\<lparr>vec_x = p_x p, vec_y = p_y p\<rparr>])"
    using True by (simp add: pushHistory_def Let_def)
  also have "\<dots> = drop 1 (history p @ [\<lparr>vec_x = p_x p, vec_y = p_y p\<rparr>])"
    by (simp only: drop_Suc One_nat_def drop_0)
  finally show ?thesis
    by (simp only: one)
next
  case False
  assume "length (history p) \<le> maxHistory p"
  with False have "length (history p) < maxHistory p" by simp
  then show ?thesis
    by (simp add: pushHistory_def Let_def)
qed

lemma pushHistory_length:
  "length (history p) \<le> maxHistory p \<Longrightarrow> length (history (pushHistory p)) \<le> maxHistory p"
  by (auto simp: pushHistory_def Let_def)

lemma update_history_length:
  "length (history p) \<le> maxHistory p \<Longrightarrow>
   length (history (Particle_update p force speed)) \<le> maxHistory p"
  using pushHistory_length [of p] by (simp add: update_fields)

lemma updates_snoc:
  "updates p (steps @ [(force, speed)]) = Particle_update (updates p steps) force speed"
  by (induction p steps rule: updates.induct) simp_all

lemma updates_constants:
  "maxSpeed (updates p steps) = maxSpeed p"
  "maxHistory (updates p steps) = maxHistory p"
  "p_width (updates p steps) = p_width p"
  "p_height (updates p steps) = p_height p"
  by (induction p steps rule: updates.induct) (simp_all add: update_fields)

lemma updates_history_length:
  "length (history p) \<le> maxHistory p \<Longrightarrow> length (history (updates p steps)) \<le> maxHistory p"
proof (induction p steps rule: updates.induct)
  case (1 p)
  then show ?case by simp
next
  case (2 p force speed rest)
  then show ?case
    using update_history_length [of p force speed] by (simp add: update_fields)
qed

lemma sample_particle_fields:
  "p_x sample_particle = 50" "p_y sample_particle = 300"
  "p_width sample_particle = 800" "p_height sample_particle = 600"
  "vx sample_particle = 0" "vy sample_particle = 0"
  "maxSpeed sample_particle = 2" "history sample_particle = []"
  "maxHistory sample_particle = 20"
  by (simp_all add: sample_particle_def Particle_constructor_def Let_def)

lemma limitSpeed_slow:
  assumes "0 \<le> maxSpeed p" "vx p * vx p + vy p * vy p \<le> maxSpeed p * maxSpeed p"
  shows "limitSpeed p = p"
  using assms currentSpeed_gt_iff [of "maxSpeed p" p] by (simp add: limitSpeed_def)

lemma currentSpeed_axis: "vy p = 0 \<Longrightarrow> currentSpeed p = \<bar>vx p\<bar>"
  by (simp add: currentSpeed_def)

lemma limitSpeed_axis:
  assumes "maxSpeed p = 2" "vy p = 0" "0 \<le> vx p"
  shows "vx (limitSpeed p) = min 2 (vx p)" "vy (limitSpeed p) = 0"
  using assms by (simp_all add: limitSpeed_def currentSpeed_axis)

text \<open>One frame of a particle that moves along the x axis, pushed by the force \<open>east\<close>.\<close>

lemma cruise_step:
  assumes "maxSpeed p = 2" "vy p = 0" "0 \<le> vx p" "p_width p = 800" "p_height p = 600"
    "p_y p = 300" "2 \<le> p_x p" "p_x p \<le> 700"
  shows "vx (Particle_update p east 1) = min 2 (vx p + 3 / 10)"
    "vy (Particle_update p east 1) = 0"
    "p_x p \<le> p_x (Particle_update p east 1)"
    "p_x (Particle_update p east 1) \<le> p_x p + 2"
    "p_y (Particle_update p east 1) = 300"
    "hue (Particle_update p east 1) = (vx p + 3 / 10) * 60"
proof -
  let ?q = "applyForce p east"
  have q: "maxSpeed ?q = 2" "vy ?q = 0" "0 \<le> vx ?q" "vx ?q = vx p + 3 / 10"
    using assms by (simp_all add: east_def)
  have l: "vx (limitSpeed ?q) = min 2 (vx p + 3 / 10)" "vy (limitSpeed ?q) = 0"
    using limitSpeed_axis [OF q(1,2,3)] q(4) by simp_all
  show "vx (Particle_update p east 1) = min 2 (vx p + 3 / 10)"
    "vy (Particle_update p east 1) = 0"
    "p_x p \<le> p_x (Particle_update p east 1)"
    "p_x (Particle_update p east 1) \<le> p_x p + 2"
    "p_y (Particle_update p east 1) = 300"
    using assms l
    by (auto simp: update_fields bounceX_fields bounceY_fields beforeBounce_fields min_def)
  show "hue (Particle_update p east 1) = (vx p + 3 / 10) * 60"
    using assms q by (simp add: update_fields currentSpeed_axis)
qed

lemma cruise:
  "k \<le> 6 \<Longrightarrow>
   vx (updates sample_particle (replicate k (east, 1))) = 3 / 10 * real k
   \<and> vy (updates sample_particle (replicate k (east, 1))) = 0
   \<and> 50 \<le> p_x (updates sample_particle (replicate k (east, 1)))
   \<and> p_x (updates sample_particle (replicate k (east, 1))) \<le> 50 + 2 * real k
   \<and> p_y (updates sample_particle (replicate k (east, 1))) = 300"
proof (induction k)
  case 0
  then show ?case by (simp add: sample_particle_fields)
next
  case (Suc k)
  let ?p = "updates sample_particle (replicate k (east, 1))"
  have k: "real k \<le> 5" using Suc.prems by simp
  have ih: "vx ?p = 3 / 10 * real k" "vy ?p = 0" "50 \<le> p_x ?p" "p_x ?p \<le> 50 + 2 * real k"
    "p_y ?p = 300"
    using Suc by simp_all
  have r: "replicate (Suc k) (east, 1 :: real) = replicate k (east, 1) @ [(east, 1)]"
    by (simp add: replicate_append_same)
  have c: "maxSpeed ?p = 2" "p_width ?p = 800" "p_height ?p = 600"
    by (simp_all add: updates_constants sample_particle_fields)
  have v: "0 \<le> vx ?p" using ih(1) by simp
  have x: "2 \<le> p_x ?p" "p_x ?p \<le> 700" using ih(3,4) k by linarith+
  note st = cruise_step [OF c(1) ih(2) v c(2,3) ih(5) x]
  have "min 2 (vx ?p + 3 / 10) = 3 / 10 * real (Suc k)"
    using ih(1) k by (simp add: algebra_simps)
  then show ?case
    unfolding r updates_snoc using st ih by simp
qed

lemma first_frame:
  "vx (limitSpeed (applyForce sample_particle east)) = 3 / 10"
  "vy (limitSpeed (applyForce sample_particle east)) = 0"
  "vx (limitSpeed (applyForce sample_particle west)) = - (3 / 10)"
  "vy (limitSpeed (applyForce sample_particle west)) = 0"
  by (simp_all add: limitSpeed_slow sample_particle_fields east_def west_def)

section \<open>The properties of the specification\<close>

text \<open>
  C1. In the mode \<open>flow\<close> with the pointer inactive, \<open>getVector(x, y)\<close> is
  \<open>(cos a, sin a)\<close> for \<open>a = noise2D(x / 100, y / 100 + time) * 2\<pi>\<close>, on every field
  that the program can build: the scale of such a field is 100.
\<close>

theorem getVector_flow:
  assumes "reachable f" "mode f = ''flow''" "\<not> mousePressed f"
  shows "getVector f x y =
           \<lparr>vec_x = cos (noise2D f (x / 100) (y / 100 + time f) * (2 * pi)),
            vec_y = sin (noise2D f (x / 100) (y / 100 + time f) * (2 * pi))\<rparr>"
  using assms by (intro flow_angle_inactive reachable_scale)

theorem getVector_flow_witness:
  "reachable (FlowField_constructor 800 600 None zero_draws)
   \<and> mode (FlowField_constructor 800 600 None zero_draws) = ''flow''
   \<and> \<not> mousePressed (FlowField_constructor 800 600 None zero_draws)
   \<and> getVector (FlowField_constructor 800 600 None zero_draws) 300 200
       = \<lparr>vec_x = 1, vec_y = 0\<rparr>"
proof -
  let ?f = "FlowField_constructor 800 600 None zero_draws"
  have r: "reachable ?f" by (rule reachable_zero_draws)
  have m: "mode ?f = ''flow''" by (simp add: constructor_fields)
  have i: "\<not> mousePressed ?f" by (simp add: constructor_fields)
  have n: "noise2D ?f 3 2 = 0" using noise2D_int [of ?f 3 2] by simp
  show ?thesis
    using r m i getVector_flow [OF r m i, of 300 200] n by (simp add: constructor_fields)
qed

text \<open>
  C2. \<open>noise2D(x, y)\<close> lies in \<open>[-1, 1]\<close> for all real \<open>x\<close> and \<open>y\<close>, whatever the
  permutation table holds.
\<close>

theorem noise2D_range: "- 1 \<le> noise2D f x y \<and> noise2D f x y \<le> 1"
  using noise2D_abs_le [of f x y] by linarith

theorem noise2D_range_witness:
  "- 1 \<le> noise2D (FlowField_constructor 800 600 None zero_draws) (5 / 2) (7 / 4)
   \<and> noise2D (FlowField_constructor 800 600 None zero_draws) (5 / 2) (7 / 4) \<le> 1"
  by (rule noise2D_range)

text \<open>
  C3. After every run of one or more calls of \<open>update\<close>, with any forces and any speed
  multipliers, on a particle whose \<open>maxSpeed\<close> is 2, the speed \<open>sqrt(vx\<^sup>2 + vy\<^sup>2)\<close> is at most
  2. The run ends with an arbitrary call, so the bound holds after each call of a run,
  bounce or not.
\<close>

theorem speed_cap:
  assumes "maxSpeed p = 2" "steps \<noteq> []"
  shows "sqrt ((vx (updates p steps))\<^sup>2 + (vy (updates p steps))\<^sup>2) \<le> 2"
proof -
  obtain front force speed where s: "steps = front @ [(force, speed)]"
    using assms(2) by (cases steps rule: rev_cases) auto
  have "currentSpeed (Particle_update (updates p front) force speed) \<le> 2"
    using update_speed_le [of "updates p front" force speed] assms(1)
    by (simp add: updates_constants)
  then show ?thesis
    by (simp add: s updates_snoc currentSpeed_def power2_eq_square)
qed

theorem speed_cap_witness:
  "maxSpeed sample_particle = 2 \<and> [(east, 1 :: real)] \<noteq> []
   \<and> sqrt ((vx (updates sample_particle [(east, 1)]))\<^sup>2
        + (vy (updates sample_particle [(east, 1)]))\<^sup>2) \<le> 2
   \<and> vx (updates sample_particle [(east, 1)]) = 3 / 10"
  using speed_cap [of sample_particle "[(east, 1)]"]
  by (simp add: sample_particle_fields update_fields bounceX_fields beforeBounce_fields
      first_frame)

text \<open>
  C4. For a particle whose stored width and height are at least 4, after every run of one
  or more calls of \<open>update\<close> the position satisfies \<open>2 \<le> x \<le> width - 2\<close> and
  \<open>2 \<le> y \<le> height - 2\<close>.
\<close>

theorem stays_inside:
  assumes "4 \<le> p_width p" "4 \<le> p_height p" "steps \<noteq> []"
  shows "2 \<le> p_x (updates p steps) \<and> p_x (updates p steps) \<le> p_width p - 2
       \<and> 2 \<le> p_y (updates p steps) \<and> p_y (updates p steps) \<le> p_height p - 2"
proof -
  obtain front force speed where s: "steps = front @ [(force, speed)]"
    using assms(3) by (cases steps rule: rev_cases) auto
  show ?thesis
    using update_inside [of "updates p front" force speed] assms(1,2)
    by (simp add: s updates_snoc updates_constants)
qed

theorem stays_inside_witness:
  "4 \<le> p_width sample_particle \<and> 4 \<le> p_height sample_particle
   \<and> [(west, 200 :: real)] \<noteq> []
   \<and> 2 \<le> p_x (updates sample_particle [(west, 200)])
   \<and> p_x (updates sample_particle [(west, 200)]) \<le> p_width sample_particle - 2
   \<and> 2 \<le> p_y (updates sample_particle [(west, 200)])
   \<and> p_y (updates sample_particle [(west, 200)]) \<le> p_height sample_particle - 2
   \<and> p_x (updates sample_particle [(west, 200)]) = 2"
  using stays_inside [of sample_particle "[(west, 200)]"]
  by (simp add: sample_particle_fields update_fields bounceX_fields beforeBounce_fields
      first_frame)

text \<open>
  C5. The hue is computed from the speed measured before the cap. A new particle pushed
  by the unit force \<open>east\<close> for seven frames has the capped velocity \<open>(2, 0)\<close> and the
  hue 126, where the capped speed would give 120: the value measured before the cap
  was 2.1.
\<close>

theorem hue_above_range:
  "vx (updates sample_particle (replicate 7 (east, 1))) = 2
   \<and> vy (updates sample_particle (replicate 7 (east, 1))) = 0
   \<and> hue (updates sample_particle (replicate 7 (east, 1))) = 126"
proof -
  let ?p = "updates sample_particle (replicate 6 (east, 1))"
  have six: "vx ?p = 9 / 5" "vy ?p = 0" "50 \<le> p_x ?p" "p_x ?p \<le> 62" "p_y ?p = 300"
    using cruise [of 6] by simp_all
  have r: "replicate 7 (east, 1 :: real) = replicate 6 (east, 1) @ [(east, 1)]"
    by (simp add: replicate_append_same [symmetric] eval_nat_numeral)
  have c: "maxSpeed ?p = 2" "p_width ?p = 800" "p_height ?p = 600"
    by (simp_all add: updates_constants sample_particle_fields)
  have v: "0 \<le> vx ?p" using six(1) by simp
  have x: "2 \<le> p_x ?p" "p_x ?p \<le> 700" using six(3,4) by linarith+
  note st = cruise_step [OF c(1) six(2) v c(2,3) six(5) x]
  show ?thesis
    unfolding r updates_snoc using st six(1) by simp
qed

text \<open>
  C6. The constructor sets the rate of time to 0.0003 whatever the mode it is given,
  here \<open>galaxy\<close>; \<open>setMode\<close> gives the same mode the rate 0.0001. The pointer of
  the new field is inactive, with the radius 150 and the strength 0.5.
\<close>

theorem constructor_timeSpeed_galaxy:
  "mode (FlowField_constructor 800 600 (Some ''galaxy'') zero_draws) = ''galaxy''
   \<and> timeSpeed (FlowField_constructor 800 600 (Some ''galaxy'') zero_draws) = 3 / 10000
   \<and> timeSpeed (setMode (FlowField_constructor 800 600 None zero_draws) ''galaxy'') = 1 / 10000
   \<and> \<not> mousePressed (FlowField_constructor 800 600 (Some ''galaxy'') zero_draws)
   \<and> mouseRadius (FlowField_constructor 800 600 (Some ''galaxy'') zero_draws) = 150
   \<and> mouseForce (FlowField_constructor 800 600 (Some ''galaxy'') zero_draws) = 1 / 2"
  by (simp add: constructor_fields setMode_def)

text \<open>
  C7, as amended. Whatever the arguments \<open>x\<close> and \<open>y\<close> are, present or absent, the
  constructor places the particle at \<open>50 + r * (dimension - 100)\<close> on each axis, for the
  draw \<open>r\<close> of that axis; for a draw in \<open>[0, 1)\<close> and a dimension above 100 this is within
  the inset of 50 units. The velocity is zero, the history empty and \<open>maxSpeed\<close> is 2.
\<close>

theorem constructor_position:
  "p_x (Particle_constructor x y w h r1 r2 r3) = 50 + r1 * (w - 100)
   \<and> p_y (Particle_constructor x y w h r1 r2 r3) = 50 + r2 * (h - 100)
   \<and> (0 \<le> r1 \<and> r1 < 1 \<and> 100 < w \<longrightarrow>
        50 \<le> p_x (Particle_constructor x y w h r1 r2 r3)
        \<and> p_x (Particle_constructor x y w h r1 r2 r3) < w - 50)
   \<and> (0 \<le> r2 \<and> r2 < 1 \<and> 100 < h \<longrightarrow>
        50 \<le> p_y (Particle_constructor x y w h r1 r2 r3)
        \<and> p_y (Particle_constructor x y w h r1 r2 r3) < h - 50)
   \<and> vx (Particle_constructor x y w h r1 r2 r3) = 0
   \<and> vy (Particle_constructor x y w h r1 r2 r3) = 0
   \<and> history (Particle_constructor x y w h r1 r2 r3) = []
   \<and> maxSpeed (Particle_constructor x y w h r1 r2 r3) = 2"
proof -
  have inset: "50 + r * (d - 100) < d - 50" if "r < 1" "100 < d" for r d :: real
  proof -
    have "r * (d - 100) < 1 * (d - 100)"
      using that by (intro mult_strict_right_mono) simp_all
    then show ?thesis by simp
  qed
  show ?thesis
    using inset [of r1 w] inset [of r2 h]
    by (simp add: Particle_constructor_def Let_def)
qed

theorem constructor_position_witness:
  "(0 :: real) \<le> 1 / 4 \<and> (1 / 4 :: real) < 1 \<and> (100 :: real) < 800
   \<and> (0 :: real) \<le> 1 / 2 \<and> (1 / 2 :: real) < 1 \<and> (100 :: real) < 600
   \<and> p_x (Particle_constructor None None 800 600 (1 / 4) (1 / 2) 0) = 225
   \<and> p_y (Particle_constructor None None 800 600 (1 / 4) (1 / 2) 0) = 300
   \<and> 50 \<le> p_x (Particle_constructor None None 800 600 (1 / 4) (1 / 2) 0)
   \<and> p_x (Particle_constructor None None 800 600 (1 / 4) (1 / 2) 0) < 800 - 50
   \<and> vx (Particle_constructor None None 800 600 (1 / 4) (1 / 2) 0) = 0
   \<and> history (Particle_constructor None None 800 600 (1 / 4) (1 / 2) 0) = []"
  using constructor_position [of None None 800 600 "1 / 4" "1 / 2" 0]
  by simp

text \<open>
  C7 as stated fails: constructed with the position \<open>(10, 20)\<close> and the draws 1/2, the
  particle is at \<open>(400, 300)\<close>.
\<close>

theorem constructor_ignores_position:
  "p_x (Particle_constructor (Some 10) (Some 20) 800 600 (1 / 2) (1 / 2) 0) = 400
   \<and> p_y (Particle_constructor (Some 10) (Some 20) 800 600 (1 / 2) (1 / 2) 0) = 300
   \<and> p_x (Particle_constructor (Some 10) (Some 20) 800 600 (1 / 2) (1 / 2) 0) \<noteq> 10
   \<and> p_y (Particle_constructor (Some 10) (Some 20) 800 600 (1 / 2) (1 / 2) 0) \<noteq> 20"
  by (simp add: Particle_constructor_def Let_def)

text \<open>
  C8. For a particle whose history holds at most 20 entries (a new particle has none)
  and whose \<open>maxHistory\<close> is 20: after every run of calls of \<open>update\<close> the history has at
  most 20 entries; after a call in which a bounce occurred it is empty; and after a call
  without a bounce it is the old history followed by the position at the start of the
  call, without its oldest entry when that makes 21.
\<close>

theorem history_bounded:
  assumes "length (history p) \<le> 20" "maxHistory p = 20"
  shows "length (history (updates p steps)) \<le> 20
       \<and> (bounced p force speed \<longrightarrow> history (Particle_update p force speed) = [])
       \<and> (\<not> bounced p force speed \<longrightarrow>
            history (Particle_update p force speed) =
              drop (length (history p) + 1 - 20)
                (history p @ [\<lparr>vec_x = p_x p, vec_y = p_y p\<rparr>]))"
  using assms updates_history_length [of p steps] pushHistory_history [of p]
  by (simp add: update_fields)

theorem history_bounded_witness:
  "length (history sample_particle) \<le> 20 \<and> maxHistory sample_particle = 20
   \<and> length (history (updates sample_particle [(east, 1), (west, 200)])) \<le> 20
   \<and> bounced sample_particle west 200
   \<and> history (Particle_update sample_particle west 200) = []
   \<and> \<not> bounced sample_particle east 1
   \<and> history (Particle_update sample_particle east 1) = [\<lparr>vec_x = 50, vec_y = 300\<rparr>]"
  using history_bounded [of sample_particle "[(east, 1), (west, 200)]" west 200]
    history_bounded [of sample_particle "[]" east 1]
  by (simp add: sample_particle_fields bounced_iff beforeBounce_fields first_frame)

text \<open>
  C9, as amended. For every force and every speed multiplier: when the new position is
  under the margin of 2 on an axis, it is set to the margin and the velocity on that axis
  becomes 0.7 times its absolute value; otherwise, when it is over the dimension minus
  the margin, it is set there and the velocity becomes minus 0.7 times its absolute
  value; in both cases the call counts as bounced, and the y axis is treated after the x
  axis in the same way, the checks of one axis leaving the other untouched. When the
  speed multiplier is positive and the call began within the margins on that axis, this
  is the velocity before the collision, negated and scaled by 0.7.
\<close>

theorem bounce_response:
  "(p_x (beforeBounce p force speed) < 2 \<longrightarrow>
      p_x (Particle_update p force speed) = 2
      \<and> vx (Particle_update p force speed) = \<bar>vx (beforeBounce p force speed)\<bar> * (7 / 10)
      \<and> bounced p force speed)
   \<and> (\<not> p_x (beforeBounce p force speed) < 2
       \<and> p_x (beforeBounce p force speed) > p_width p - 2 \<longrightarrow>
      p_x (Particle_update p force speed) = p_width p - 2
      \<and> vx (Particle_update p force speed) = - \<bar>vx (beforeBounce p force speed)\<bar> * (7 / 10)
      \<and> bounced p force speed)
   \<and> (p_y (beforeBounce p force speed) < 2 \<longrightarrow>
      p_y (Particle_update p force speed) = 2
      \<and> vy (Particle_update p force speed) = \<bar>vy (beforeBounce p force speed)\<bar> * (7 / 10)
      \<and> bounced p force speed)
   \<and> (\<not> p_y (beforeBounce p force speed) < 2
       \<and> p_y (beforeBounce p force speed) > p_height p - 2 \<longrightarrow>
      p_y (Particle_update p force speed) = p_height p - 2
      \<and> vy (Particle_update p force speed) = - \<bar>vy (beforeBounce p force speed)\<bar> * (7 / 10)
      \<and> bounced p force speed)
   \<and> (0 < speed \<and> 2 \<le> p_x p \<and> p_x p \<le> p_width p - 2
       \<and> (p_x (beforeBounce p force speed) < 2
            \<or> p_x (beforeBounce p force speed) > p_width p - 2) \<longrightarrow>
      vx (Particle_update p force speed) = - vx (beforeBounce p force speed) * (7 / 10))
   \<and> (0 < speed \<and> 2 \<le> p_y p \<and> p_y p \<le> p_height p - 2
       \<and> (p_y (beforeBounce p force speed) < 2
            \<or> p_y (beforeBounce p force speed) > p_height p - 2) \<longrightarrow>
      vy (Particle_update p force speed) = - vy (beforeBounce p force speed) * (7 / 10))"
proof -
  let ?b = "beforeBounce p force speed"
  have toward: "(a + v * s < 2 \<longrightarrow> v \<le> 0) \<and> (a + v * s > b \<longrightarrow> 0 \<le> v)"
    if "0 < s" "2 \<le> a" "a \<le> b" for a v s b :: real
  proof (intro conjI impI)
    assume "a + v * s < 2"
    with that have "v * s < 0" by linarith
    with that(1) show "v \<le> 0" by (simp add: mult_less_0_iff)
  next
    assume "a + v * s > b"
    with that have "0 < v * s" by linarith
    with that(1) show "0 \<le> v" by (simp add: zero_less_mult_iff)
  qed
  have xlow: "p_x ?b < 2 \<longrightarrow>
      p_x (Particle_update p force speed) = 2
      \<and> vx (Particle_update p force speed) = \<bar>vx ?b\<bar> * (7 / 10)
      \<and> bounced p force speed"
    by (simp add: update_fields bounceX_fields bounced_iff beforeBounce_fields)
  have xhigh: "\<not> p_x ?b < 2 \<and> p_x ?b > p_width p - 2 \<longrightarrow>
      p_x (Particle_update p force speed) = p_width p - 2
      \<and> vx (Particle_update p force speed) = - \<bar>vx ?b\<bar> * (7 / 10)
      \<and> bounced p force speed"
    by (simp add: update_fields bounceX_fields bounced_iff beforeBounce_fields)
  have ylow: "p_y ?b < 2 \<longrightarrow>
      p_y (Particle_update p force speed) = 2
      \<and> vy (Particle_update p force speed) = \<bar>vy ?b\<bar> * (7 / 10)
      \<and> bounced p force speed"
    by (simp add: update_fields bounceY_fields bounced_iff beforeBounce_fields)
  have yhigh: "\<not> p_y ?b < 2 \<and> p_y ?b > p_height p - 2 \<longrightarrow>
      p_y (Particle_update p force speed) = p_height p - 2
      \<and> vy (Particle_update p force speed) = - \<bar>vy ?b\<bar> * (7 / 10)
      \<and> bounced p force speed"
    by (simp add: update_fields bounceY_fields bounced_iff beforeBounce_fields)
  have xneg: "0 < speed \<and> 2 \<le> p_x p \<and> p_x p \<le> p_width p - 2
       \<and> (p_x ?b < 2 \<or> p_x ?b > p_width p - 2) \<longrightarrow>
      vx (Particle_update p force speed) = - vx ?b * (7 / 10)"
  proof (intro impI, elim conjE)
    assume h: "0 < speed" "2 \<le> p_x p" "p_x p \<le> p_width p - 2"
      and c: "p_x ?b < 2 \<or> p_x ?b > p_width p - 2"
    note t = toward [OF h, of "vx (limitSpeed (applyForce p force))"]
    from c show "vx (Particle_update p force speed) = - vx ?b * (7 / 10)"
    proof
      assume l: "p_x ?b < 2"
      then have "vx ?b \<le> 0" using t by (simp add: beforeBounce_fields)
      then show ?thesis using xlow l by simp
    next
      assume g: "p_x ?b > p_width p - 2"
      then have "0 \<le> vx ?b" using t by (simp add: beforeBounce_fields)
      moreover have "\<not> p_x ?b < 2" using g h by linarith
      ultimately show ?thesis using xhigh g by simp
    qed
  qed
  have yneg: "0 < speed \<and> 2 \<le> p_y p \<and> p_y p \<le> p_height p - 2
       \<and> (p_y ?b < 2 \<or> p_y ?b > p_height p - 2) \<longrightarrow>
      vy (Particle_update p force speed) = - vy ?b * (7 / 10)"
  proof (intro impI, elim conjE)
    assume h: "0 < speed" "2 \<le> p_y p" "p_y p \<le> p_height p - 2"
      and c: "p_y ?b < 2 \<or> p_y ?b > p_height p - 2"
    note t = toward [OF h, of "vy (limitSpeed (applyForce p force))"]
    from c show "vy (Particle_update p force speed) = - vy ?b * (7 / 10)"
    proof
      assume l: "p_y ?b < 2"
      then have "vy ?b \<le> 0" using t by (simp add: beforeBounce_fields)
      then show ?thesis using ylow l by simp
    next
      assume g: "p_y ?b > p_height p - 2"
      then have "0 \<le> vy ?b" using t by (simp add: beforeBounce_fields)
      moreover have "\<not> p_y ?b < 2" using g h by linarith
      ultimately show ?thesis using yhigh g by simp
    qed
  qed
  from xlow xhigh ylow yhigh xneg yneg show ?thesis by (intro conjI)
qed

theorem bounce_response_witness:
  "(0 :: real) < 200 \<and> 2 \<le> p_x sample_particle
   \<and> p_x sample_particle \<le> p_width sample_particle - 2
   \<and> p_x (beforeBounce sample_particle west 200) < 2
   \<and> vx (beforeBounce sample_particle west 200) = - (3 / 10)
   \<and> p_x (Particle_update sample_particle west 200) = 2
   \<and> vx (Particle_update sample_particle west 200) = 21 / 100
   \<and> bounced sample_particle west 200"
  using bounce_response [of sample_particle west 200]
  by (simp add: sample_particle_fields beforeBounce_fields first_frame)

text \<open>
  C9 as stated fails for a negative speed multiplier: the sample particle, pushed east
  with the multiplier \<open>-200\<close>, crosses the left margin with the velocity 0.3 and leaves
  with 0.21, which has the same sign.
\<close>

theorem bounce_negative_speed:
  "p_x (beforeBounce sample_particle east (- 200)) < 2
   \<and> vx (beforeBounce sample_particle east (- 200)) = 3 / 10
   \<and> vx (Particle_update sample_particle east (- 200)) = 21 / 100
   \<and> vx (Particle_update sample_particle east (- 200))
       \<noteq> - vx (beforeBounce sample_particle east (- 200)) * (7 / 10)"
  by (simp add: update_fields bounceX_fields sample_particle_fields beforeBounce_fields
      first_frame)

text \<open>
  C10, as amended. \<open>noise2D\<close> is 0 at every pair of integers, whatever the permutation
  table holds; and in the mode \<open>flow\<close> at time 0, \<open>getVector\<close> is \<open>(1, 0)\<close> at every
  point whose coordinates are integer multiples of 100, unless the pointer is pressed
  and the point is nearer to it than \<open>mouseRadius\<close>.
\<close>

theorem noise2D_lattice_zero:
  "noise2D f (of_int i) (of_int j) = 0
   \<and> (reachable f \<longrightarrow> mode f = ''flow'' \<longrightarrow> time f = 0 \<longrightarrow>
        \<not> (mousePressed f
           \<and> sqrt ((100 * of_int i - mouseX f) * (100 * of_int i - mouseX f)
                 + (100 * of_int j - mouseY f) * (100 * of_int j - mouseY f))
               < mouseRadius f) \<longrightarrow>
        getVector f (100 * of_int i) (100 * of_int j) = \<lparr>vec_x = 1, vec_y = 0\<rparr>)"
proof (intro conjI impI)
  show "noise2D f (of_int i) (of_int j) = 0" by (rule noise2D_int)
next
  assume "reachable f" and m: "mode f = ''flow''" and t: "time f = 0"
    and p: "\<not> (mousePressed f
           \<and> sqrt ((100 * of_int i - mouseX f) * (100 * of_int i - mouseX f)
                 + (100 * of_int j - mouseY f) * (100 * of_int j - mouseY f))
               < mouseRadius f)"
  then have s: "scale f = 100" by (simp add: reachable_scale)
  have a: "modeAngle f (100 * of_int i) (100 * of_int j) = 0"
    using s m t by (simp add: modeAngle_def noise2D_int)
  have "applyMouse f (100 * of_int i) (100 * of_int j) 0 = 0"
    using p by (auto simp: applyMouse_def Let_def)
  then show "getVector f (100 * of_int i) (100 * of_int j) = \<lparr>vec_x = 1, vec_y = 0\<rparr>"
    by (simp add: getVector_def a)
qed

theorem noise2D_lattice_zero_witness:
  "reachable (setMousePressed (FlowField_constructor 800 600 None zero_draws) True)
   \<and> mousePressed (setMousePressed (FlowField_constructor 800 600 None zero_draws) True)
   \<and> noise2D (setMousePressed (FlowField_constructor 800 600 None zero_draws) True) 7 3 = 0
   \<and> getVector (setMousePressed (FlowField_constructor 800 600 None zero_draws) True) 700 300
       = \<lparr>vec_x = 1, vec_y = 0\<rparr>
   \<and> getVector (FlowField_constructor 800 600 None zero_draws) 500 300
       = \<lparr>vec_x = 1, vec_y = 0\<rparr>"
proof -
  let ?g = "FlowField_constructor 800 600 None zero_draws"
  let ?f = "setMousePressed ?g True"
  have rg: "reachable ?g" by (rule reachable_zero_draws)
  have rf: "reachable ?f" by (rule reachable.mouse_pressed [OF rg])
  have d: "sqrt (300 * 300) = (300::real)" by simp
  have fs: "mode ?f = ''flow''" "time ?f = 0" "mousePressed ?f" "mouseX ?f = 400"
    "mouseY ?f = 300" "mouseRadius ?f = 150"
    by (simp_all add: setMousePressed_def constructor_fields)
  have far: "\<not> (mousePressed ?f
           \<and> sqrt ((100 * of_int 7 - mouseX ?f) * (100 * of_int 7 - mouseX ?f)
                 + (100 * of_int 3 - mouseY ?f) * (100 * of_int 3 - mouseY ?f))
               < mouseRadius ?f)"
    using d by (simp add: fs)
  have one: "getVector ?f 700 300 = \<lparr>vec_x = 1, vec_y = 0\<rparr>"
    using noise2D_lattice_zero [of ?f 7 3] rf fs(1,2) far by simp
  have two: "getVector ?g 500 300 = \<lparr>vec_x = 1, vec_y = 0\<rparr>"
    using noise2D_lattice_zero [of ?g 5 3] rg by (simp add: constructor_fields)
  have zero: "noise2D ?f 7 3 = 0"
    using noise2D_lattice_zero [of ?f 7 3] by simp
  show ?thesis using rf fs(3) zero one two by simp
qed

text \<open>
  C10 as stated fails when the pointer is active: a new field in the mode \<open>flow\<close>, at
  time 0, with the pointer pressed at its initial place \<open>(400, 300)\<close>, turns the vector
  at \<open>(500, 300)\<close> by \<open>\<pi> / 6\<close>.
\<close>

theorem getVector_lattice_pointer_active:
  "mode (setMousePressed (FlowField_constructor 800 600 None zero_draws) True) = ''flow''
   \<and> time (setMousePressed (FlowField_constructor 800 600 None zero_draws) True) = 0
   \<and> getVector (setMousePressed (FlowField_constructor 800 600 None zero_draws) True) 500 300
       = \<lparr>vec_x = sqrt 3 / 2, vec_y = 1 / 2\<rparr>
   \<and> getVector (setMousePressed (FlowField_constructor 800 600 None zero_draws) True) 500 300
       \<noteq> \<lparr>vec_x = 1, vec_y = 0\<rparr>"
proof -
  let ?f = "setMousePressed (FlowField_constructor 800 600 None zero_draws) True"
  have n: "noise2D ?f 5 3 = 0" using noise2D_int [of ?f 5 3] by simp
  have d: "sqrt (100 * 100) = (100::real)" by simp
  have "getVector ?f 500 300 = \<lparr>vec_x = cos (pi / 6), vec_y = sin (pi / 6)\<rparr>"
    using n d
    by (simp add: getVector_def applyMouse_def modeAngle_def setMousePressed_def
        constructor_fields atan2_def Let_def)
  then have "getVector ?f 500 300 = \<lparr>vec_x = sqrt 3 / 2, vec_y = 1 / 2\<rparr>"
    by (simp add: cos_30 sin_30)
  then show ?thesis
    by (simp add: setMousePressed_def constructor_fields)
qed

end
